theory Spec2Isabelle
  imports Main
begin

section \<open>Data model of the translator application\<close>

text \<open>
  Python strings are sequences of Unicode code points; the application's literals are
  mostly Chinese, so a string of the program is a list of code points, not a list of bytes.
\<close>

type_synonym ustring = "nat list"

type_synonym path = ustring

text \<open>
  \<^verbatim>\<open>str.strip()\<close> without argument removes leading and trailing white space; these are
  the code points Python regards as white space.
\<close>

definition is_space :: "nat \<Rightarrow> bool" where
  "is_space c = (c \<in> {0x09, 0x0A, 0x0B, 0x0C, 0x0D, 0x1C, 0x1D, 0x1E, 0x1F, 0x20, 0x85, 0xA0,
      0x1680, 0x2000, 0x2001, 0x2002, 0x2003, 0x2004, 0x2005, 0x2006, 0x2007, 0x2008,
      0x2009, 0x200A, 0x2028, 0x2029, 0x202F, 0x205F, 0x3000})"

definition strip_by :: "(nat \<Rightarrow> bool) \<Rightarrow> ustring \<Rightarrow> ustring" where
  "strip_by p t = rev (dropWhile p (rev (dropWhile p t)))"

definition strip :: "ustring \<Rightarrow> ustring" where
  "strip t = strip_by is_space t"

text \<open>\<^verbatim>\<open>s.strip('"')\<close>: removes leading and trailing double quotes.\<close>

definition strip_quotes :: "ustring \<Rightarrow> ustring" where
  "strip_quotes t = strip_by (\<lambda>c. c = 0x22) t"

text \<open>
  The slice \<^verbatim>\<open>xs[-n:]\<close> starts at index \<^verbatim>\<open>max(len(xs) - n, 0)\<close>; the subtraction on
  \<open>nat\<close> stops at \<open>0\<close> in the same way.
\<close>

definition last_n :: "nat \<Rightarrow> 'a list \<Rightarrow> 'a list" where
  "last_n n xs = drop (length xs - n) xs"

text \<open>The items of the two language combo boxes, in the order of their indices.\<close>

datatype lang = Chinese | English | Japanese

fun lang_name :: "lang \<Rightarrow> ustring" where
  "lang_name Chinese = [0x4E2D, 0x6587]"
| "lang_name English = [0x82F1, 0x6587]"
| "lang_name Japanese = [0x65E5, 0x6587]"

text \<open>The items of the translation-service combo box (v1.1), in the order of their indices.\<close>

datatype service = GroqLlama3 | GoogleFree | TranslatorsAggregate | GeminiPro | DeepL

text \<open>The items of the voice-service combo box.\<close>

datatype voice_service = EdgeTTS | GoogleTTS | SystemTTS

text \<open>Exceptions carry their message; \<^verbatim>\<open>str(e)\<close> reads it.\<close>

datatype exn = ValueError ustring | PermissionError ustring | FileNotFoundError ustring | LibraryError ustring

fun str_exn :: "exn \<Rightarrow> ustring" where
  "str_exn (ValueError m) = m"
| "str_exn (PermissionError m) = m"
| "str_exn (FileNotFoundError m) = m"
| "str_exn (LibraryError m) = m"

text \<open>A learned example: the dictionary \<^verbatim>\<open>{"source": ..., "translation": ...}\<close>, one
  field for each key.\<close>

record example =
  ex_source :: ustring
  ex_translation :: ustring

text \<open>Message boxes shown to the user: title and body.\<close>

datatype alert = Warning ustring ustring | Information ustring ustring | Critical ustring ustring

datatype style = White | Grey

text \<open>A file on disk: its size, and whether another process still holds it open (the
  media backend), in which case \<^verbatim>\<open>os.unlink\<close> is refused.\<close>

record disk_file =
  file_size :: nat
  file_locked :: bool

text \<open>
  The state of the main window object together with the parts of the world it acts on:
  the persisted settings value \<^verbatim>\<open>translation_examples\<close>, the widgets' contents, the
  single-shot translation timer (\<open>Some ms\<close> while it is pending), the player, the disk.
  \<open>messages\<close> records the message boxes shown and \<open>provider_calls\<close> the network
  calls made to translation providers, in order; \<open>deferred_cleanups\<close> counts the
  100 ms single-shot callbacks that v1.0 leaves pending when it stops the player.
\<close>

record app =
  translate_left_to_right :: bool
  last_source_text :: ustring
  temp_files :: "path list"
  current_playing_file :: "path option"
  api_keys :: "service \<Rightarrow> ustring option"
  translation_examples :: "example list"
  translate_timer :: "nat option"
  player_playing :: bool
  left_lang_combo :: lang
  right_lang_combo :: lang
  left_text :: ustring
  right_text :: ustring
  left_read_only :: bool
  right_read_only :: bool
  left_style :: style
  right_style :: style
  left_text_connected :: bool
  right_text_connected :: bool
  translator_combo :: service
  voice_combo :: voice_service
  edge_voice_combo :: ustring
  pyttsx3_voice_combo :: ustring
  api_key_input :: ustring
  correction_input :: ustring
  messages :: "alert list"
  provider_calls :: "service list"
  deferred_cleanups :: nat
  disk :: "path \<Rightarrow> disk_file option"

section \<open>Learning a correction\<close>

definition msg_error_title :: ustring where
  "msg_error_title = [0x932F, 0x8AA4]"

definition msg_success_title :: ustring where
  "msg_success_title = [0x6210, 0x529F]"

definition msg_need_both :: ustring where
  "msg_need_both = [0x5FC5, 0x9808, 0x6709, 0x539F, 0x6587, 0x548C, 0x60A8, 0x4FEE, 0x6B63,
     0x5F8C, 0x7684, 0x8B6F, 0x6587, 0x624D, 0x80FD, 0x5B78, 0x7FD2, 0xFF01]"

definition msg_learned :: ustring where
  "msg_learned = [0x9019, 0x500B, 0x7BC4, 0x4F8B, 0x5C07, 0x5728, 0x672A, 0x4F86, 0x4F7F,
     0x7528, 0x20, 0x4C, 0x6C, 0x61, 0x6D, 0x61, 0x33, 0x20, 0x7FFB, 0x8B6F, 0x6642, 0x4F5C,
     0x70BA, 0x53C3, 0x8003, 0x3002]"

definition msg_learned_v10 :: ustring where
  "msg_learned_v10 = [0x5B78, 0x7FD2, 0x6210, 0x529F, 0xFF01, 0x9019, 0x500B, 0x7BC4, 0x4F8B,
     0x5C07, 0x5728, 0x672A, 0x4F86, 0x7684, 0x7FFB, 0x8B6F, 0x4E2D, 0x4F5C, 0x70BA, 0x53C3,
     0x8003, 0x3002]"

definition show_message :: "alert \<Rightarrow> app \<Rightarrow> app" where
  "show_message a s = s\<lparr>messages := messages s @ [a]\<rparr>"

text \<open>\<^verbatim>\<open>save_correction\<close> of v1.1: always slices to the last ten examples.\<close>

definition save_correction :: "app \<Rightarrow> app" where
  "save_correction s =
     (let source_text = strip (last_source_text s);
          corrected_translation = strip (correction_input s)
      in if source_text = [] \<or> corrected_translation = []
         then show_message (Warning msg_error_title msg_need_both) s
         else
           let examples = translation_examples s;
               new_example = \<lparr>ex_source = source_text, ex_translation = corrected_translation\<rparr>;
               examples = (if new_example \<notin> set examples then examples @ [new_example]
                           else examples);
               examples = last_n 10 examples
           in show_message (Information msg_success_title msg_learned)
                (s\<lparr>translation_examples := examples, correction_input := []\<rparr>))"

text \<open>\<^verbatim>\<open>save_correction\<close> of v1.0: slices only when the list has more than ten examples.\<close>

definition save_correction_v10 :: "app \<Rightarrow> app" where
  "save_correction_v10 s =
     (let source_text = strip (last_source_text s);
          corrected_translation = strip (correction_input s)
      in if source_text = [] \<or> corrected_translation = []
         then show_message (Warning msg_error_title msg_need_both) s
         else
           let examples = translation_examples s;
               new_example = \<lparr>ex_source = source_text, ex_translation = corrected_translation\<rparr>;
               examples = (if new_example \<notin> set examples then examples @ [new_example]
                           else examples);
               examples = (if length examples > 10 then drop (length examples - 10) examples
                           else examples)
           in show_message (Information msg_success_title msg_learned_v10)
                (s\<lparr>translation_examples := examples, correction_input := []\<rparr>))"

section \<open>Direction, editors, timer and the text-changed handlers\<close>

definition update_editor_states :: "app \<Rightarrow> app" where
  "update_editor_states s =
     (if translate_left_to_right s
      then s\<lparr>left_read_only := False, right_read_only := True,
             left_style := White, right_style := Grey\<rparr>
      else s\<lparr>left_read_only := True, right_read_only := False,
             left_style := Grey, right_style := White\<rparr>)"

text \<open>
  The window after \<^verbatim>\<open>__init__\<close>: the API keys and the learned examples come from the
  settings store, the disk from the world. The left combo shows its first item, the right
  one index 1; both text-changed signals are connected; no timer is pending.
\<close>

definition init_app :: "(service \<Rightarrow> ustring option) \<Rightarrow> example list \<Rightarrow> (path \<Rightarrow> disk_file option) \<Rightarrow> app" where
  "init_app keys examples d = update_editor_states
     \<lparr>translate_left_to_right = True, last_source_text = [], temp_files = [],
      current_playing_file = None, api_keys = keys, translation_examples = examples,
      translate_timer = None, player_playing = False,
      left_lang_combo = Chinese, right_lang_combo = English,
      left_text = [], right_text = [],
      left_read_only = False, right_read_only = False,
      left_style = White, right_style = White,
      left_text_connected = True, right_text_connected = True,
      translator_combo = GroqLlama3, voice_combo = EdgeTTS, edge_voice_combo = [],
      pyttsx3_voice_combo = [], api_key_input = [], correction_input = [],
      messages = [], provider_calls = [], deferred_cleanups = 0, disk = d\<rparr>"

text \<open>\<^verbatim>\<open>stop_audio\<close> of v1.1 only stops the player.\<close>

definition stop_audio :: "app \<Rightarrow> app" where
  "stop_audio s = (if player_playing s then s\<lparr>player_playing := False\<rparr> else s)"

text \<open>\<^verbatim>\<open>translate_timer.start(ms)\<close> starts the single-shot timer, or restarts it.\<close>

definition timer_start :: "nat \<Rightarrow> app \<Rightarrow> app" where
  "timer_start ms s = s\<lparr>translate_timer := Some ms\<rparr>"

definition trigger_translation :: "app \<Rightarrow> app" where
  "trigger_translation s = timer_start 50 s"

text \<open>The two text panes are addressed by \<open>is_left\<close>, as the handlers are.\<close>

definition pane_text :: "bool \<Rightarrow> app \<Rightarrow> ustring" where
  "pane_text is_left s = (if is_left then left_text s else right_text s)"

definition write_pane :: "bool \<Rightarrow> ustring \<Rightarrow> app \<Rightarrow> app" where
  "write_pane is_left t s = (if is_left then s\<lparr>left_text := t\<rparr> else s\<lparr>right_text := t\<rparr>)"

definition text_connected :: "bool \<Rightarrow> app \<Rightarrow> bool" where
  "text_connected is_left s = (if is_left then left_text_connected s else right_text_connected s)"

text \<open>
  \<^verbatim>\<open>handle_text_changed\<close>. Clearing the target pane changes that pane's document, so its
  own text-changed signal runs the handler again, for the other side, while it is
  connected.
\<close>

function handle_text_changed :: "bool \<Rightarrow> app \<Rightarrow> app" where
  "handle_text_changed is_left s =
     (if is_left \<noteq> translate_left_to_right s then s
      else if strip (pane_text is_left s) = []
      then (if text_connected (\<not> is_left) (write_pane (\<not> is_left) [] s)
            then handle_text_changed (\<not> is_left) (write_pane (\<not> is_left) [] s)
            else write_pane (\<not> is_left) [] s)
      else timer_start 1200 s)"
  by pat_completeness auto
termination
  by (relation "measure (\<lambda>(is_left, s). if is_left = translate_left_to_right s then 1 else 0)")
     (auto simp: write_pane_def)

text \<open>
  A programmatic write to a pane (\<^verbatim>\<open>setText\<close>, \<^verbatim>\<open>setPlainText\<close>, \<^verbatim>\<open>clear\<close>) or a
  user's edit: the content changes and the pane's text-changed signal reaches the handler
  while it is connected.
\<close>

definition set_text :: "bool \<Rightarrow> ustring \<Rightarrow> app \<Rightarrow> app" where
  "set_text is_left t s =
     (let s' = write_pane is_left t s
      in if text_connected is_left s' then handle_text_changed is_left s' else s')"

text \<open>
  \<^verbatim>\<open>setCurrentIndex\<close> on a language combo: when the current item changes, the signal
  \<^verbatim>\<open>currentTextChanged\<close> runs \<^verbatim>\<open>trigger_translation\<close>, which \<^verbatim>\<open>_connect_signals\<close>
  connected to both combos. The same happens when the user picks a language.
\<close>

definition set_left_lang :: "lang \<Rightarrow> app \<Rightarrow> app" where
  "set_left_lang l s =
     (if left_lang_combo s = l then s else trigger_translation (s\<lparr>left_lang_combo := l\<rparr>))"

definition set_right_lang :: "lang \<Rightarrow> app \<Rightarrow> app" where
  "set_right_lang l s =
     (if right_lang_combo s = l then s else trigger_translation (s\<lparr>right_lang_combo := l\<rparr>))"

definition swap_languages :: "app \<Rightarrow> app" where
  "swap_languages s0 =
     (let s = stop_audio s0;
          left_idx = left_lang_combo s;
          right_idx = right_lang_combo s;
          s = set_left_lang right_idx s;
          s = set_right_lang left_idx s;
          s = s\<lparr>left_text_connected := False\<rparr>;
          s = s\<lparr>right_text_connected := False\<rparr>;
          left_content = left_text s;
          right_content = right_text s;
          s = set_text True right_content s;
          s = set_text False left_content s;
          s = s\<lparr>translate_left_to_right := \<not> translate_left_to_right s\<rparr>;
          s = update_editor_states s;
          s = s\<lparr>left_text_connected := True\<rparr>;
          s = s\<lparr>right_text_connected := True\<rparr>
      in s)"

definition handle_swap_button :: "app \<Rightarrow> app" where
  "handle_swap_button s = swap_languages s"

section \<open>Translation\<close>

text \<open>The dictionary \<^verbatim>\<open>get_lang_code\<close> returns (v1.1): one code for each direct API.\<close>

record codes =
  google :: ustring
  deepl :: ustring

definition get_lang_code :: "ustring \<Rightarrow> codes" where
  "get_lang_code language =
     (if language = lang_name Chinese
      then \<lparr>google = [0x7A, 0x68, 0x2D, 0x54, 0x57], deepl = [0x5A, 0x48]\<rparr>
      else if language = lang_name English
      then \<lparr>google = [0x65, 0x6E], deepl = [0x45, 0x4E, 0x2D, 0x55, 0x53]\<rparr>
      else if language = lang_name Japanese
      then \<lparr>google = [0x6A, 0x61], deepl = [0x4A, 0x41]\<rparr>
      else \<lparr>google = [0x65, 0x6E], deepl = [0x45, 0x4E]\<rparr>)"

text \<open>The language table of the aggregator branch, \<^verbatim>\<open>lang_map.get(name, default)\<close>.\<close>

definition ts_lang_map :: "ustring \<Rightarrow> ustring \<Rightarrow> ustring" where
  "ts_lang_map name dflt =
     (if name = lang_name Chinese then [0x7A, 0x68]
      else if name = lang_name English then [0x65, 0x6E]
      else if name = lang_name Japanese then [0x6A, 0x61]
      else dflt)"

text \<open>
  The external collaborators of a translation: each vendor call returns a string or
  raises; \<open>opencc_convert\<close> is \<^verbatim>\<open>OpenCC('s2twp').convert\<close> and \<open>random_sample\<close> is
  \<^verbatim>\<open>random.sample\<close>.
\<close>

record providers =
  google_translate :: "ustring \<Rightarrow> ustring \<Rightarrow> ustring \<Rightarrow> exn + ustring"
  groq_chat :: "ustring \<Rightarrow> ustring \<Rightarrow> exn + ustring"
  gemini_generate :: "ustring \<Rightarrow> ustring \<Rightarrow> exn + ustring"
  ts_translate :: "ustring \<Rightarrow> ustring \<Rightarrow> ustring \<Rightarrow> exn + ustring"
  deepl_translate :: "ustring \<Rightarrow> ustring \<Rightarrow> ustring \<Rightarrow> ustring \<Rightarrow> exn + ustring"
  opencc_convert :: "ustring \<Rightarrow> ustring"
  random_sample :: "example list \<Rightarrow> nat \<Rightarrow> example list"

definition error_prefix :: ustring where
  "error_prefix =
     [0x7FFB, 0x8B6F, 0x932F, 0x8AA4, 0x3A, 0x20]"

definition msg_groq_key :: ustring where
  "msg_groq_key =
     [0x8ACB, 0x5148, 0x5728, 0x8A2D, 0x5B9A, 0x4E2D, 0x4FDD, 0x5B58, 0x20, 0x47, 0x72,
      0x6F, 0x71, 0x20, 0x41, 0x50, 0x49, 0x20, 0x4B, 0x65, 0x79]"

definition msg_gemini_key :: ustring where
  "msg_gemini_key =
     [0x8ACB, 0x5148, 0x4FDD, 0x5B58, 0x20, 0x47, 0x65, 0x6D, 0x69, 0x6E, 0x69, 0x20,
      0x50, 0x72, 0x6F, 0x20, 0x41, 0x50, 0x49, 0x20, 0x4B, 0x65, 0x79]"

definition msg_deepl_key :: ustring where
  "msg_deepl_key =
     [0x8ACB, 0x5148, 0x8A2D, 0x7F6E, 0x20, 0x44, 0x65, 0x65, 0x70, 0x4C, 0x20, 0x41,
      0x50, 0x49, 0x20, 0x4B, 0x65, 0x79]"

definition examples_header :: ustring where
  "examples_header =
     [0x48, 0x65, 0x72, 0x65, 0x20, 0x61, 0x72, 0x65, 0x20, 0x73, 0x6F, 0x6D, 0x65,
      0x20, 0x65, 0x78, 0x61, 0x6D, 0x70, 0x6C, 0x65, 0x73, 0x20, 0x6F, 0x66, 0x20,
      0x6D, 0x79, 0x20, 0x70, 0x72, 0x65, 0x66, 0x65, 0x72, 0x72, 0x65, 0x64, 0x20,
      0x66, 0x69, 0x6E, 0x61, 0x6C, 0x20, 0x74, 0x72, 0x61, 0x6E, 0x73, 0x6C, 0x61,
      0x74, 0x69, 0x6F, 0x6E, 0x20, 0x73, 0x74, 0x79, 0x6C, 0x65, 0x2E, 0x20, 0x55,
      0x73, 0x65, 0x20, 0x74, 0x68, 0x65, 0x6D, 0x20, 0x61, 0x73, 0x20, 0x61, 0x20,
      0x73, 0x74, 0x79, 0x6C, 0x65, 0x20, 0x67, 0x75, 0x69, 0x64, 0x65, 0x3A, 0xA]"

definition tc_instruction_text :: ustring where
  "tc_instruction_text =
     [0x59, 0x6F, 0x75, 0x72, 0x20, 0x72, 0x65, 0x73, 0x70, 0x6F, 0x6E, 0x73, 0x65,
      0x20, 0x4D, 0x55, 0x53, 0x54, 0x20, 0x42, 0x45, 0x20, 0x69, 0x6E, 0x20, 0x54,
      0x72, 0x61, 0x64, 0x69, 0x74, 0x69, 0x6F, 0x6E, 0x61, 0x6C, 0x20, 0x43, 0x68,
      0x69, 0x6E, 0x65, 0x73, 0x65, 0x20, 0x28, 0x7E41, 0x9AD4, 0x4E2D, 0x6587, 0x29,
      0x20, 0x66, 0x6F, 0x72, 0x20, 0x54, 0x61, 0x69, 0x77, 0x61, 0x6E, 0x2E]"

definition groq_intro :: ustring where
  "groq_intro =
     [0x59, 0x6F, 0x75, 0x20, 0x61, 0x72, 0x65, 0x20, 0x61, 0x20, 0x77, 0x6F, 0x72,
      0x6C, 0x64, 0x2D, 0x63, 0x6C, 0x61, 0x73, 0x73, 0x20, 0x6C, 0x6F, 0x63, 0x61,
      0x6C, 0x69, 0x7A, 0x61, 0x74, 0x69, 0x6F, 0x6E, 0x20, 0x65, 0x78, 0x70, 0x65,
      0x72, 0x74, 0x20, 0x74, 0x72, 0x61, 0x6E, 0x73, 0x6C, 0x61, 0x74, 0x69, 0x6E,
      0x67, 0x20, 0x66, 0x72, 0x6F, 0x6D, 0x20]"

definition groq_review :: ustring where
  "groq_review =
     [0x43, 0x72, 0x69, 0x74, 0x69, 0x63, 0x61, 0x6C, 0x6C, 0x79, 0x20, 0x72, 0x65,
      0x76, 0x69, 0x65, 0x77, 0x20, 0x61, 0x6E, 0x64, 0x20, 0x70, 0x72, 0x6F, 0x76,
      0x69, 0x64, 0x65, 0x20, 0x74, 0x68, 0x65, 0x20, 0x62, 0x65, 0x73, 0x74, 0x2C,
      0x20, 0x6D, 0x6F, 0x73, 0x74, 0x20, 0x6E, 0x61, 0x74, 0x75, 0x72, 0x61, 0x6C,
      0x2D, 0x73, 0x6F, 0x75, 0x6E, 0x64, 0x69, 0x6E, 0x67, 0x20, 0x74, 0x72, 0x61,
      0x6E, 0x73, 0x6C, 0x61, 0x74, 0x69, 0x6F, 0x6E, 0x20, 0x66, 0x6F, 0x72, 0x20,
      0x74, 0x68, 0x65, 0x20, 0x74, 0x65, 0x78, 0x74, 0x20, 0x62, 0x65, 0x6C, 0x6F,
      0x77, 0x2E, 0x20, 0x49, 0x74, 0x20, 0x6D, 0x75, 0x73, 0x74, 0x20, 0x62, 0x65,
      0x20, 0x70, 0x65, 0x72, 0x66, 0x65, 0x63, 0x74, 0x6C, 0x79, 0x20, 0x69, 0x64,
      0x69, 0x6F, 0x6D, 0x61, 0x74, 0x69, 0x63, 0x20, 0x66, 0x6F, 0x72, 0x20, 0x61,
      0x20, 0x6E, 0x61, 0x74, 0x69, 0x76, 0x65, 0x20, 0x73, 0x70, 0x65, 0x61, 0x6B,
      0x65, 0x72, 0x20, 0x6F, 0x66, 0x20]"

definition groq_task :: ustring where
  "groq_task =
     [0x2D, 0x2D, 0x2D, 0x20, 0x54, 0x41, 0x53, 0x4B, 0x20, 0x2D, 0x2D, 0x2D, 0xA, 0x54,
      0x72, 0x61, 0x6E, 0x73, 0x6C, 0x61, 0x74, 0x65, 0x20, 0x74, 0x68, 0x65, 0x20,
      0x66, 0x6F, 0x6C, 0x6C, 0x6F, 0x77, 0x69, 0x6E, 0x67, 0x20, 0x74, 0x65, 0x78,
      0x74, 0x3A, 0xA, 0x22]"

definition groq_final :: ustring where
  "groq_final =
     [0x50, 0x72, 0x6F, 0x76, 0x69, 0x64, 0x65, 0x20, 0x4F, 0x4E, 0x4C, 0x59, 0x20,
      0x74, 0x68, 0x65, 0x20, 0x66, 0x69, 0x6E, 0x61, 0x6C, 0x2C, 0x20, 0x69, 0x6D,
      0x70, 0x72, 0x6F, 0x76, 0x65, 0x64, 0x20, 0x74, 0x72, 0x61, 0x6E, 0x73, 0x6C,
      0x61, 0x74, 0x69, 0x6F, 0x6E, 0x3A]"

definition example_source_label :: ustring where
  "example_source_label =
     [0x2D, 0x20, 0x53, 0x6F, 0x75, 0x72, 0x63, 0x65, 0x3A, 0x20, 0x22]"

definition example_preferred_label :: ustring where
  "example_preferred_label =
     [0x22, 0xA, 0x20, 0x20, 0x50, 0x72, 0x65, 0x66, 0x65, 0x72, 0x72, 0x65, 0x64, 0x20,
      0x54, 0x72, 0x61, 0x6E, 0x73, 0x6C, 0x61, 0x74, 0x69, 0x6F, 0x6E, 0x3A, 0x20,
      0x22]"

definition gemini_ask :: ustring where
  "gemini_ask =
     [0x8ACB, 0x5C07, 0x4EE5, 0x4E0B, 0x300C]"

definition gemini_into :: ustring where
  "gemini_into =
     [0x300D, 0x6587, 0x672C, 0x7FFB, 0x8B6F, 0x6210, 0x300C]"

definition gemini_only :: ustring where
  "gemini_only =
     [0x300D, 0xFF0C, 0x53EA, 0x9700, 0x8981, 0x63D0, 0x4F9B, 0x7FFB, 0x8B6F, 0x5F8C,
      0x7684, 0x6587, 0x672C, 0x5373, 0x53EF, 0xFF0C, 0x4E0D, 0x8981, 0x5305, 0x542B,
      0x4EFB, 0x4F55, 0x984D, 0x5916, 0x7684, 0x89E3, 0x91CB, 0x6216, 0x6A19, 0x7C64,
      0xFF1A, 0xA, 0xA]"

text \<open>\<^verbatim>\<open>not api_key\<close>: the key is missing or the empty string.\<close>

definition no_key :: "ustring option \<Rightarrow> bool" where
  "no_key k = (case k of None \<Rightarrow> True | Some v \<Rightarrow> v = [])"

definition key_of :: "ustring option \<Rightarrow> ustring" where
  "key_of k = (case k of None \<Rightarrow> [] | Some v \<Rightarrow> v)"

fun examples_lines :: "example list \<Rightarrow> ustring" where
  "examples_lines [] = []"
| "examples_lines (ex # exs) =
     example_source_label @ ex_source ex @ example_preferred_label @ ex_translation ex
       @ [0x22, 0x0A] @ examples_lines exs"

definition examples_str :: "providers \<Rightarrow> example list \<Rightarrow> ustring" where
  "examples_str env examples =
     (if examples \<noteq> []
      then examples_header
             @ examples_lines (random_sample env examples (min (length examples) 3))
      else [])"

definition refinement_prompt :: "providers \<Rightarrow> example list \<Rightarrow> ustring \<Rightarrow> ustring \<Rightarrow> ustring \<Rightarrow> ustring" where
  "refinement_prompt env examples src_lang_name dest_lang_name source_text =
     (let tc_instruction =
            (if dest_lang_name = lang_name Chinese then tc_instruction_text else [])
      in groq_intro @ src_lang_name @ [0x20, 0x74, 0x6F, 0x20] @ dest_lang_name @ [0x2E, 0x0A]
         @ groq_review @ dest_lang_name @ [0x2E, 0x0A]
         @ tc_instruction @ [0x0A, 0x0A] @ examples_str env examples @ [0x0A, 0x0A]
         @ groq_task @ source_text @ [0x22, 0x0A, 0x0A]
         @ groq_final)"

definition gemini_prompt :: "ustring \<Rightarrow> ustring \<Rightarrow> ustring \<Rightarrow> ustring" where
  "gemini_prompt src_lang_name dest_lang_name source_text =
     gemini_ask @ src_lang_name @ gemini_into @ dest_lang_name @ gemini_only @ source_text"

definition log_call :: "service \<Rightarrow> app \<Rightarrow> app" where
  "log_call sv s = s\<lparr>provider_calls := provider_calls s @ [sv]\<rparr>"

text \<open>
  The body of the \<^verbatim>\<open>try\<close> block of \<^verbatim>\<open>translate_text\<close> (v1.1) up to the value of
  \<^verbatim>\<open>translation\<close>, one branch for each service in the order of the source. A missing
  key raises before the vendor is called. The last alternative is the chain's silent
  fall-through, where \<^verbatim>\<open>translation\<close> keeps its initial empty string.
\<close>

definition translate_dispatch :: "providers \<Rightarrow> ustring \<Rightarrow> ustring \<Rightarrow> ustring \<Rightarrow> app \<Rightarrow> app \<times> (exn + ustring)" where
  "translate_dispatch env source_text src_lang_name dest_lang_name s =
     (let service = translator_combo s
      in if service = GoogleFree
         then (log_call service s,
               google_translate env (google (get_lang_code src_lang_name))
                 (google (get_lang_code dest_lang_name)) source_text)
         else if service = GroqLlama3
         then (if no_key (api_keys s service) then (s, Inl (ValueError msg_groq_key))
               else (log_call service s,
                     case groq_chat env (key_of (api_keys s service))
                            (refinement_prompt env (translation_examples s)
                               src_lang_name dest_lang_name source_text) of
                       Inl e \<Rightarrow> Inl e
                     | Inr content \<Rightarrow>
                         (let translation = strip_quotes (strip content)
                          in if dest_lang_name = lang_name Chinese
                             then Inr (opencc_convert env translation)
                             else Inr translation)))
         else if service = GeminiPro
         then (if no_key (api_keys s service) then (s, Inl (ValueError msg_gemini_key))
               else (log_call service s,
                     gemini_generate env (key_of (api_keys s service))
                       (gemini_prompt src_lang_name dest_lang_name source_text)))
         else if service = TranslatorsAggregate
         then (let src_code = ts_lang_map src_lang_name [0x61, 0x75, 0x74, 0x6F];
                   dest_code = ts_lang_map dest_lang_name [0x65, 0x6E]
               in (log_call service s,
                   case ts_translate env source_text src_code dest_code of
                     Inl e \<Rightarrow> Inl e
                   | Inr translation \<Rightarrow>
                       if dest_code = [0x7A, 0x68]
                       then Inr (opencc_convert env translation)
                       else Inr translation))
         else if service = DeepL
         then (if no_key (api_keys s service) then (s, Inl (ValueError msg_deepl_key))
               else (log_call service s,
                     deepl_translate env (key_of (api_keys s service)) source_text
                       (deepl (get_lang_code src_lang_name))
                       (deepl (get_lang_code dest_lang_name))))
         else (s, Inr []))"

text \<open>
  The values \<^verbatim>\<open>translate_text\<close> reads first, from the direction: the trimmed text of
  the source pane, the names of the source and target languages, and the target pane.
\<close>

definition source_text_of :: "app \<Rightarrow> ustring" where
  "source_text_of s = strip (if translate_left_to_right s then left_text s else right_text s)"

definition src_lang_name_of :: "app \<Rightarrow> ustring" where
  "src_lang_name_of s =
     lang_name (if translate_left_to_right s then left_lang_combo s else right_lang_combo s)"

definition dest_lang_name_of :: "app \<Rightarrow> ustring" where
  "dest_lang_name_of s =
     lang_name (if translate_left_to_right s then right_lang_combo s else left_lang_combo s)"

definition target_is_left :: "app \<Rightarrow> bool" where
  "target_is_left s = (\<not> translate_left_to_right s)"

text \<open>
  \<^verbatim>\<open>translate_text\<close> (v1.1). The result type admits an exception leaving the function;
  the \<^verbatim>\<open>except\<close> clause turns every exception of the \<^verbatim>\<open>try\<close> block into text for the
  target pane.
\<close>

definition translate_text :: "providers \<Rightarrow> app \<Rightarrow> exn + app" where
  "translate_text env s =
     (let source_text = source_text_of s;
          src_lang_name = src_lang_name_of s;
          dest_lang_name = dest_lang_name_of s
      in if source_text = [] then Inr (set_text (target_is_left s) [] s)
         else
           (case translate_dispatch env source_text src_lang_name dest_lang_name
                   (s\<lparr>last_source_text := source_text\<rparr>) of
              (s', Inr translation) \<Rightarrow> Inr (set_text (target_is_left s) translation s')
            | (s', Inl e) \<Rightarrow>
                Inr (set_text (target_is_left s) (error_prefix @ str_exn e) s')))"

definition handle_translate_button :: "providers \<Rightarrow> app \<Rightarrow> exn + app" where
  "handle_translate_button env s = translate_text env s"

text \<open>The single-shot timer fires: it is no longer pending and its slot runs.\<close>

definition timer_timeout :: "providers \<Rightarrow> app \<Rightarrow> exn + app" where
  "timer_timeout env s =
     (case translate_timer s of
        None \<Rightarrow> Inr s
      | Some ms \<Rightarrow> translate_text env (s\<lparr>translate_timer := None\<rparr>))"

text \<open>The remaining slots of the settings row.\<close>

definition handle_translator_service_changed :: "service \<Rightarrow> app \<Rightarrow> app" where
  "handle_translator_service_changed sv s =
     trigger_translation (s\<lparr>api_key_input := key_of (api_keys s sv)\<rparr>)"

definition select_translator :: "service \<Rightarrow> app \<Rightarrow> app" where
  "select_translator sv s =
     (if translator_combo s = sv then s
      else handle_translator_service_changed sv (s\<lparr>translator_combo := sv\<rparr>))"

text \<open>The display names of the services, the keys of \<^verbatim>\<open>api_keys\<close>.\<close>

fun service_name :: "service \<Rightarrow> ustring" where
  "service_name GroqLlama3 =
     [0x47, 0x72, 0x6F, 0x71, 0x20, 0x4C, 0x6C, 0x61, 0x6D, 0x61, 0x33, 0x20, 0x28,
     0x514D, 0x8CBB, 0x29]"
| "service_name GoogleFree =
     [0x47, 0x6F, 0x6F, 0x67, 0x6C, 0x65, 0x7FFB, 0x8B6F, 0x20, 0x28, 0x514D,
     0x8CBB, 0x29]"
| "service_name TranslatorsAggregate =
     [0x54, 0x72, 0x61, 0x6E, 0x73, 0x6C, 0x61, 0x74, 0x6F, 0x72, 0x73, 0x20,
     0x805A, 0x5408, 0x7FFB, 0x8B6F, 0x20, 0x28, 0x514D, 0x8CBB, 0x29]"
| "service_name GeminiPro =
     [0x47, 0x65, 0x6D, 0x69, 0x6E, 0x69, 0x20, 0x50, 0x72, 0x6F, 0x20, 0x41, 0x50,
     0x49, 0x20, 0x28, 0x4ED8, 0x8CBB, 0x29]"
| "service_name DeepL =
     [0x44, 0x65, 0x65, 0x70, 0x4C, 0x20, 0x41, 0x50, 0x49, 0x20, 0x28, 0x4ED8,
     0x8CBB, 0x29]"

definition msg_key_saved :: "service \<Rightarrow> ustring" where
  "msg_key_saved sv =
     service_name sv
       @ [0x20, 0x7684, 0x20, 0x41, 0x50, 0x49, 0x20, 0x4B, 0x65, 0x79, 0x20, 0x5DF2, 0x4FDD, 0x5B58]"

definition save_api_key :: "app \<Rightarrow> app" where
  "save_api_key s =
     (let sv = translator_combo s;
          api_key = strip (api_key_input s)
      in show_message (Information msg_success_title (msg_key_saved sv))
           (s\<lparr>api_keys := (api_keys s)(sv \<mapsto> api_key)\<rparr>))"

section \<open>Temporary audio files\<close>

definition msg_edge_voice :: ustring where
  "msg_edge_voice =
     [0x8ACB, 0x5148, 0x5728, 0x20, 0x45, 0x64, 0x67, 0x65, 0x20, 0x54, 0x54, 0x53,
      0x20, 0x9078, 0x9805, 0x4E2D, 0x9078, 0x64C7, 0x4E00, 0x500B, 0x8A9E, 0x97F3]"

definition msg_tts_error_title :: ustring where
  "msg_tts_error_title =
     [0x54, 0x54, 0x53, 0x20, 0x45, 0x72, 0x72, 0x6F, 0x72]"

definition msg_tts_error :: ustring where
  "msg_tts_error =
     [0x751F, 0x6210, 0x8A9E, 0x97F3, 0x6642, 0x767C, 0x751F, 0x932F, 0x8AA4, 0x3A,
      0x20]"

definition msg_playback_error_title :: ustring where
  "msg_playback_error_title =
     [0x50, 0x6C, 0x61, 0x79, 0x62, 0x61, 0x63, 0x6B, 0x20, 0x45, 0x72, 0x72, 0x6F,
      0x72]"

definition msg_playback_error :: ustring where
  "msg_playback_error =
     [0x64AD, 0x653E, 0x97F3, 0x8A0A, 0x6642, 0x767C, 0x751F, 0x932F, 0x8AA4, 0x3A,
      0x20]"

text \<open>
  \<^verbatim>\<open>os.unlink\<close>: a missing file raises \<^verbatim>\<open>FileNotFoundError\<close>, a file that is still
  held open raises \<^verbatim>\<open>PermissionError\<close>; both are \<^verbatim>\<open>OSError\<close>s.
\<close>

definition os_unlink :: "path \<Rightarrow> (path \<Rightarrow> disk_file option) \<Rightarrow> exn + (path \<Rightarrow> disk_file option)" where
  "os_unlink p d =
     (case d p of
        None \<Rightarrow> Inl (FileNotFoundError p)
      | Some f \<Rightarrow> if file_locked f then Inl (PermissionError p) else Inr (d(p := None)))"

text \<open>
  \<^verbatim>\<open>cleanup_single_file\<close> (v1.1): acts only on a tracked path; the path leaves the list
  after a successful unlink, and an exception of the unlink is printed and dropped.
\<close>

definition cleanup_single_file :: "path \<Rightarrow> app \<Rightarrow> app" where
  "cleanup_single_file file_path s =
     (if file_path \<in> set (temp_files s)
      then (case os_unlink file_path (disk s) of
              Inr d \<Rightarrow> s\<lparr>disk := d, temp_files := remove1 file_path (temp_files s)\<rparr>
            | Inl e \<Rightarrow> s)
      else s)"

text \<open>\<^verbatim>\<open>cleanup_all_temp_files\<close> (v1.1) walks a copy of the list.\<close>

definition cleanup_all_temp_files :: "app \<Rightarrow> app" where
  "cleanup_all_temp_files s0 =
     (let s = stop_audio s0 in fold cleanup_single_file (temp_files s) s)"

definition closeEvent :: "app \<Rightarrow> app" where
  "closeEvent s = cleanup_all_temp_files s"

text \<open>
  v1.0: \<^verbatim>\<open>stop_audio\<close> leaves a deferred callback behind and forgets the current file;
  \<^verbatim>\<open>cleanup_all_temp_files\<close> unlinks the files that exist and never touches the list.
\<close>

definition stop_audio_v10 :: "app \<Rightarrow> app" where
  "stop_audio_v10 s =
     (if player_playing s
      then (let s = s\<lparr>player_playing := False\<rparr>
            in if current_playing_file s \<noteq> None \<and> current_playing_file s \<noteq> Some []
               then s\<lparr>deferred_cleanups := deferred_cleanups s + 1,
                      current_playing_file := None\<rparr>
               else s)
      else s)"

definition unlink_if_exists :: "path \<Rightarrow> app \<Rightarrow> app" where
  "unlink_if_exists temp_file s =
     (if disk s temp_file \<noteq> None
      then (case os_unlink temp_file (disk s) of
              Inr d \<Rightarrow> s\<lparr>disk := d\<rparr>
            | Inl e \<Rightarrow> s)
      else s)"

definition cleanup_all_temp_files_v10 :: "app \<Rightarrow> app" where
  "cleanup_all_temp_files_v10 s0 =
     (let s = stop_audio_v10 s0 in fold unlink_if_exists (temp_files s) s)"

text \<open>
  The collaborators of speech synthesis: \<^verbatim>\<open>NamedTemporaryFile(delete=False)\<close> gives the
  path of a new empty file or raises; each backend's save gives the number of bytes it
  wrote to the file or raises; starting the player may raise.
\<close>

record tts_env =
  named_temporary_file :: "(path \<Rightarrow> disk_file option) \<Rightarrow> exn + path"
  edge_save :: "ustring \<Rightarrow> ustring \<Rightarrow> exn + nat"
  gtts_save :: "ustring \<Rightarrow> ustring \<Rightarrow> exn + nat"
  pyttsx3_save :: "ustring \<Rightarrow> ustring \<Rightarrow> exn + nat"
  player_play :: "path \<Rightarrow> exn + unit"

definition write_file :: "path \<Rightarrow> nat \<Rightarrow> app \<Rightarrow> app" where
  "write_file p n s = s\<lparr>disk := (disk s)(p \<mapsto> \<lparr>file_size = n, file_locked = False\<rparr>)\<rparr>"

text \<open>
  \<^verbatim>\<open>text_to_speech\<close> (v1.1) returns the path of the audio file, or \<open>None\<close>. A path is
  true in a condition when it is not the empty string.
\<close>

definition text_to_speech :: "tts_env \<Rightarrow> ustring \<Rightarrow> codes \<Rightarrow> app \<Rightarrow> path option \<times> app" where
  "text_to_speech env txt language_codes s0 =
     (if txt = [] then (None, s0)
      else
        (case named_temporary_file env (disk s0) of
           Inl e \<Rightarrow>
             (None, show_message (Critical msg_tts_error_title (msg_tts_error @ str_exn e)) s0)
         | Inr temp_file_path \<Rightarrow>
             (let s = write_file temp_file_path 0 s0;
                  service = voice_combo s;
                  saved =
                    (if service = EdgeTTS
                     then (if edge_voice_combo s = [] then Inl (ValueError msg_edge_voice)
                           else edge_save env txt (edge_voice_combo s))
                     else if service = GoogleTTS
                     then gtts_save env txt (google language_codes)
                     else if service = SystemTTS
                     then pyttsx3_save env txt (pyttsx3_voice_combo s)
                     else Inr 0)
              in case saved of
                   Inr n \<Rightarrow>
                     (let s = write_file temp_file_path n s
                      in if temp_file_path \<noteq> [] \<and> n > 0
                         then (Some temp_file_path,
                               s\<lparr>temp_files := temp_files s @ [temp_file_path]\<rparr>)
                         else (None,
                               if temp_file_path \<noteq> [] then cleanup_single_file temp_file_path s
                               else s))
                 | Inl e \<Rightarrow>
                     (let s = show_message
                                (Critical msg_tts_error_title (msg_tts_error @ str_exn e)) s
                      in (None,
                          if temp_file_path \<noteq> [] then cleanup_single_file temp_file_path s
                          else s)))))"

text \<open>\<^verbatim>\<open>speak_text\<close> (v1.1).\<close>

definition speak_text :: "tts_env \<Rightarrow> ustring \<Rightarrow> codes \<Rightarrow> app \<Rightarrow> app" where
  "speak_text env txt language_codes s0 =
     (if txt = [] then s0
      else
        (case text_to_speech env txt language_codes (stop_audio s0) of
           (None, s) \<Rightarrow> s
         | (Some temp_file, s) \<Rightarrow>
             if temp_file = [] then s
             else
               (let s = s\<lparr>current_playing_file := Some temp_file\<rparr>
                in case player_play env temp_file of
                     Inr u \<Rightarrow> s\<lparr>player_playing := True\<rparr>
                   | Inl e \<Rightarrow>
                       cleanup_single_file temp_file
                         (show_message
                            (Critical msg_playback_error_title
                               (msg_playback_error @ str_exn e)) s))))"

definition handle_speak_button :: "tts_env \<Rightarrow> bool \<Rightarrow> app \<Rightarrow> app" where
  "handle_speak_button env is_left s =
     speak_text env (pane_text is_left s)
       (get_lang_code (lang_name (if is_left then left_lang_combo s else right_lang_combo s))) s"

datatype media_status = EndOfMedia | OtherStatus

text \<open>\<^verbatim>\<open>handle_media_status_changed\<close> (v1.1); at the end of the media the player has
  stopped.\<close>

definition handle_media_status_changed :: "media_status \<Rightarrow> app \<Rightarrow> app" where
  "handle_media_status_changed status s0 =
     (let s = (if status = EndOfMedia then s0\<lparr>player_playing := False\<rparr> else s0)
      in case current_playing_file s of
           Some p \<Rightarrow>
             if status = EndOfMedia \<and> p \<noteq> []
             then (cleanup_single_file p s)\<lparr>current_playing_file := None\<rparr>
             else s
         | None \<Rightarrow> s)"

section \<open>The states the window can be in\<close>

definition pane_read_only :: "bool \<Rightarrow> app \<Rightarrow> bool" where
  "pane_read_only is_left s = (if is_left then left_read_only s else right_read_only s)"

text \<open>
  Starting from the window as constructed, every step is a slot run by a user action, by
  the timer or by the player. The user can type only in a pane that is not read-only.
\<close>

inductive reachable :: "app \<Rightarrow> bool" where
  start: "reachable (init_app keys examples d)"
| edit: "reachable s \<Longrightarrow> \<not> pane_read_only is_left s \<Longrightarrow> reachable (set_text is_left t s)"
| pick_left_lang: "reachable s \<Longrightarrow> reachable (set_left_lang l s)"
| pick_right_lang: "reachable s \<Longrightarrow> reachable (set_right_lang l s)"
| pick_translator: "reachable s \<Longrightarrow> reachable (select_translator sv s)"
| pick_voice_service: "reachable s \<Longrightarrow> reachable (s\<lparr>voice_combo := v\<rparr>)"
| pick_edge_voice: "reachable s \<Longrightarrow> reachable (s\<lparr>edge_voice_combo := t\<rparr>)"
| pick_pyttsx3_voice: "reachable s \<Longrightarrow> reachable (s\<lparr>pyttsx3_voice_combo := t\<rparr>)"
| type_api_key: "reachable s \<Longrightarrow> reachable (s\<lparr>api_key_input := t\<rparr>)"
| type_correction: "reachable s \<Longrightarrow> reachable (s\<lparr>correction_input := t\<rparr>)"
| press_save_api_key: "reachable s \<Longrightarrow> reachable (save_api_key s)"
| press_learn: "reachable s \<Longrightarrow> reachable (save_correction s)"
| press_swap: "reachable s \<Longrightarrow> reachable (handle_swap_button s)"
| press_translate:
    "reachable s \<Longrightarrow> handle_translate_button env s = Inr s' \<Longrightarrow> reachable s'"
| timeout: "reachable s \<Longrightarrow> timer_timeout env s = Inr s' \<Longrightarrow> reachable s'"
| press_speak: "reachable s \<Longrightarrow> reachable (handle_speak_button tenv is_left s)"
| media_status: "reachable s \<Longrightarrow> reachable (handle_media_status_changed status s)"
| close: "reachable s \<Longrightarrow> reachable (closeEvent s)"

section \<open>Notions used to state the properties\<close>

text \<open>The read-only flags agree with the direction, as \<^verbatim>\<open>update_editor_states\<close> sets them.\<close>

definition editors_ok :: "app \<Rightarrow> bool" where
  "editors_ok s =
     (left_read_only s = (\<not> translate_left_to_right s)
      \<and> right_read_only s = translate_left_to_right s)"

definition editor_view :: "app \<Rightarrow> bool \<times> bool \<times> bool" where
  "editor_view s = (translate_left_to_right s, left_read_only s, right_read_only s)"

subsection \<open>Concrete states and collaborators\<close>

text \<open>A first start: nothing in the settings store, nothing on disk.\<close>

definition fresh_app :: app where
  "fresh_app = init_app Map.empty [] Map.empty"

text \<open>The user has typed \<^verbatim>\<open>Hello\<close> into the left pane.\<close>

definition hello_typed :: app where
  "hello_typed = set_text True [0x48, 0x65, 0x6C, 0x6C, 0x6F] fresh_app"

text \<open>A translation of \<^verbatim>\<open>Hi\<close> was shown and the correction field is empty.\<close>

definition hi_without_correction :: app where
  "hi_without_correction = fresh_app\<lparr>last_source_text := [0x48, 0x69]\<rparr>"

definition letter_example :: "nat \<Rightarrow> example" where
  "letter_example c = \<lparr>ex_source = [c], ex_translation = [c]\<rparr>"

text \<open>The pair to learn is already the only stored example.\<close>

definition taught_once :: app where
  "taught_once = fresh_app
     \<lparr>last_source_text := [0x61], correction_input := [0x61],
      translation_examples := [letter_example 0x61]\<rparr>"

text \<open>A new pair \<^verbatim>\<open>a\<close>, \<^verbatim>\<open>b\<close> and an empty store.\<close>

definition teach_new :: app where
  "teach_new = fresh_app\<lparr>last_source_text := [0x61], correction_input := [0x62]\<rparr>"

text \<open>
  The settings store is full: it holds the ten examples \<^verbatim>\<open>a\<close> to \<^verbatim>\<open>j\<close>, and the pair
  to learn, \<^verbatim>\<open>k\<close>, is new.
\<close>

definition full_store :: app where
  "full_store = fresh_app
     \<lparr>last_source_text := [0x6B], correction_input := [0x6B],
      translation_examples := map letter_example
        [0x61, 0x62, 0x63, 0x64, 0x65, 0x66, 0x67, 0x68, 0x69, 0x6A]\<rparr>"

text \<open>Every vendor call raises with the message \<^verbatim>\<open>off\<close>.\<close>

definition offline_providers :: providers where
  "offline_providers =
     \<lparr>google_translate = (\<lambda>a b t. Inl (LibraryError [0x6F, 0x66, 0x66])),
      groq_chat = (\<lambda>k p. Inl (LibraryError [0x6F, 0x66, 0x66])),
      gemini_generate = (\<lambda>k p. Inl (LibraryError [0x6F, 0x66, 0x66])),
      ts_translate = (\<lambda>t a b. Inl (LibraryError [0x6F, 0x66, 0x66])),
      deepl_translate = (\<lambda>k t a b. Inl (LibraryError [0x6F, 0x66, 0x66])),
      opencc_convert = (\<lambda>t. t),
      random_sample = (\<lambda>xs n. take n xs)\<rparr>"

text \<open>
  \<^verbatim>\<open>Hello\<close> has been translated by the free service: the result is shown and no timer is
  pending.
\<close>

definition hello_translated :: app where
  "hello_translated = fresh_app
     \<lparr>left_text := [0x48, 0x65, 0x6C, 0x6C, 0x6F], right_text := [0x4F60, 0x597D],
      last_source_text := [0x48, 0x65, 0x6C, 0x6C, 0x6F], translator_combo := GoogleFree,
      provider_calls := [GoogleFree]\<rparr>"

text \<open>An entry of the disk that \<^verbatim>\<open>os.unlink\<close> removes: the file exists and is not held open.\<close>

definition deletable :: "disk_file option \<Rightarrow> bool" where
  "deletable entry = (case entry of None \<Rightarrow> False | Some f \<Rightarrow> \<not> file_locked f)"


text \<open>Two finished audio files, and one that the player still holds open.\<close>

definition audio_a :: path where
  "audio_a = [0x61, 0x2E, 0x6D, 0x70, 0x33]"

definition audio_b :: path where
  "audio_b = [0x62, 0x2E, 0x6D, 0x70, 0x33]"

definition two_files_tracked :: app where
  "two_files_tracked = fresh_app
     \<lparr>temp_files := [audio_a, audio_b],
      disk := [audio_a \<mapsto> \<lparr>file_size = 1, file_locked = False\<rparr>,
               audio_b \<mapsto> \<lparr>file_size = 1, file_locked = False\<rparr>]\<rparr>"

definition locked_file_tracked :: app where
  "locked_file_tracked = fresh_app
     \<lparr>temp_files := [audio_a], current_playing_file := Some audio_a, player_playing := True,
      disk := [audio_a \<mapsto> \<lparr>file_size = 1, file_locked = True\<rparr>]\<rparr>"

text \<open>
  Speech backends that write nothing, and backends that raise with the message \<^verbatim>\<open>off\<close>;
  the new temporary file is \<^verbatim>\<open>a.mp3\<close> in both.
\<close>

definition silent_tts :: tts_env where
  "silent_tts =
     \<lparr>named_temporary_file = (\<lambda>d. Inr audio_a),
      edge_save = (\<lambda>t v. Inr 0), gtts_save = (\<lambda>t l. Inr 0), pyttsx3_save = (\<lambda>t v. Inr 0),
      player_play = (\<lambda>p. Inr ())\<rparr>"

definition failing_tts :: tts_env where
  "failing_tts =
     \<lparr>named_temporary_file = (\<lambda>d. Inr audio_a),
      edge_save = (\<lambda>t v. Inl (LibraryError [0x6F, 0x66, 0x66])),
      gtts_save = (\<lambda>t l. Inl (LibraryError [0x6F, 0x66, 0x66])),
      pyttsx3_save = (\<lambda>t v. Inl (LibraryError [0x6F, 0x66, 0x66])),
      player_play = (\<lambda>p. Inr ())\<rparr>"

text \<open>Google TTS is the selected voice service.\<close>

definition google_voice :: app where
  "google_voice = fresh_app\<lparr>voice_combo := GoogleTTS\<rparr>"

text \<open>
  English to Chinese, \<^verbatim>\<open>t\<close> typed, a key saved for every service; vendors that answer
  with the simplified character U+8BD1, which the conversion turns into U+8B6F.
\<close>

definition to_chinese :: app where
  "to_chinese = fresh_app
     \<lparr>left_lang_combo := English, right_lang_combo := Chinese, left_text := [0x74],
      api_keys := (\<lambda>sv. Some [0x6B])\<rparr>"

definition s2twp_sample :: "ustring \<Rightarrow> ustring" where
  "s2twp_sample t = map (\<lambda>c. if c = 0x8BD1 then 0x8B6F else c) t"

definition simplified_providers :: providers where
  "simplified_providers =
     \<lparr>google_translate = (\<lambda>a b t. Inr [0x8BD1]),
      groq_chat = (\<lambda>k p. Inr [0x22, 0x8BD1, 0x22]),
      gemini_generate = (\<lambda>k p. Inr [0x8BD1]),
      ts_translate = (\<lambda>t a b. Inr [0x8BD1]),
      deepl_translate = (\<lambda>k t a b. Inr [0x8BD1]),
      opencc_convert = s2twp_sample,
      random_sample = (\<lambda>xs n. take n xs)\<rparr>"


section \<open>Auxiliary facts\<close>

declare handle_text_changed.simps [simp del]

lemmas strip_eval = strip_def strip_by_def is_space_def

lemmas fresh_eval = fresh_app_def init_app_def update_editor_states_def

subsection \<open>The text-changed handler without its recursion\<close>

lemma write_pane_direction [simp]:
  "translate_left_to_right (write_pane b t s) = translate_left_to_right s"
  by (simp add: write_pane_def)

lemma pane_text_write_pane [simp]: "pane_text b (write_pane b t s) = t"
  by (simp add: pane_text_def write_pane_def)

lemma handle_text_changed_other:
  "is_left \<noteq> translate_left_to_right s \<Longrightarrow> handle_text_changed is_left s = s"
  by (subst handle_text_changed.simps) simp

lemma handle_text_changed_eq:
  "handle_text_changed is_left s =
     (if is_left \<noteq> translate_left_to_right s then s
      else if strip (pane_text is_left s) = [] then write_pane (\<not> is_left) [] s
      else timer_start 1200 s)"
  by (subst handle_text_changed.simps) (simp add: handle_text_changed_other)

lemma set_text_eq:
  "set_text is_left t s =
     (if text_connected is_left s \<and> is_left = translate_left_to_right s
      then (if strip t = [] then write_pane (\<not> is_left) [] (write_pane is_left t s)
            else timer_start 1200 (write_pane is_left t s))
      else write_pane is_left t s)"
  by (auto simp add: set_text_def Let_def handle_text_changed_eq text_connected_def
        write_pane_def pane_text_def)

lemma hello_typed_eq:
  "hello_typed =
     fresh_app\<lparr>left_text := [0x48, 0x65, 0x6C, 0x6C, 0x6F], translate_timer := Some 1200\<rparr>"
  by (simp add: hello_typed_def set_text_eq text_connected_def write_pane_def timer_start_def
        fresh_eval strip_eval)

subsection \<open>What one swap does to each field\<close>

lemma swap_languages_fields:
  "translate_left_to_right (swap_languages s) = (\<not> translate_left_to_right s)"
  "left_text (swap_languages s) = right_text s"
  "right_text (swap_languages s) = left_text s"
  "left_lang_combo (swap_languages s) = right_lang_combo s"
  "right_lang_combo (swap_languages s) = left_lang_combo s"
  "left_read_only (swap_languages s) = translate_left_to_right s"
  "right_read_only (swap_languages s) = (\<not> translate_left_to_right s)"
  "provider_calls (swap_languages s) = provider_calls s"
  "last_source_text (swap_languages s) = last_source_text s"
  "translate_timer (swap_languages s) =
     (if left_lang_combo s = right_lang_combo s then translate_timer s else Some 50)"
  by (simp_all add: swap_languages_def Let_def set_text_eq text_connected_def write_pane_def
        timer_start_def trigger_translation_def set_left_lang_def set_right_lang_def
        update_editor_states_def stop_audio_def)

subsection \<open>Only a swap touches the direction and the read-only flags\<close>

lemma editors_ok_view:
  "editors_ok s = (case editor_view s of (d, l, r) \<Rightarrow> l = (\<not> d) \<and> r = d)"
  by (simp add: editors_ok_def editor_view_def)

lemma view_set_text: "editor_view (set_text b t s) = editor_view s"
  by (simp add: editor_view_def set_text_eq write_pane_def timer_start_def)

lemma view_set_left_lang: "editor_view (set_left_lang l s) = editor_view s"
  by (simp add: editor_view_def set_left_lang_def trigger_translation_def timer_start_def)

lemma view_set_right_lang: "editor_view (set_right_lang l s) = editor_view s"
  by (simp add: editor_view_def set_right_lang_def trigger_translation_def timer_start_def)

lemma view_select_translator: "editor_view (select_translator sv s) = editor_view s"
  by (simp add: editor_view_def select_translator_def handle_translator_service_changed_def
        trigger_translation_def timer_start_def)

lemma view_save_api_key: "editor_view (save_api_key s) = editor_view s"
  by (simp add: editor_view_def save_api_key_def show_message_def Let_def)

lemma view_save_correction: "editor_view (save_correction s) = editor_view s"
  by (simp add: editor_view_def save_correction_def show_message_def Let_def)

lemma view_dispatch: "editor_view (fst (translate_dispatch env tx a b s)) = editor_view s"
  by (simp add: editor_view_def translate_dispatch_def log_call_def Let_def)

lemma view_dispatch_pair:
  assumes "translate_dispatch env tx a b s = (s1, r)"
  shows "editor_view s1 = editor_view s"
  using view_dispatch [of env "tx" a b s] assms by simp

lemma view_translate_text:
  assumes "translate_text env s = Inr s'"
  shows "editor_view s' = editor_view s"
proof -
  have upd: "editor_view (s\<lparr>last_source_text := t\<rparr>) = editor_view s" for t
    by (simp add: editor_view_def)
  show ?thesis
    using assms
    by (auto simp add: translate_text_def Let_def view_set_text upd
          split: if_splits prod.splits sum.splits dest!: view_dispatch_pair)
qed

lemma view_timer_timeout:
  assumes "timer_timeout env s = Inr s'"
  shows "editor_view s' = editor_view s"
proof (cases "translate_timer s")
  case None
  with assms show ?thesis by (simp add: timer_timeout_def)
next
  case (Some ms)
  with assms have "translate_text env (s\<lparr>translate_timer := None\<rparr>) = Inr s'"
    by (simp add: timer_timeout_def)
  from view_translate_text [OF this] show ?thesis by (simp add: editor_view_def)
qed

lemma view_cleanup_single_file: "editor_view (cleanup_single_file p s) = editor_view s"
  by (simp add: editor_view_def cleanup_single_file_def split: sum.splits)

lemma view_fold_cleanup: "editor_view (fold cleanup_single_file ps s) = editor_view s"
  by (induction ps arbitrary: s) (simp_all add: view_cleanup_single_file)

lemma view_stop_audio: "editor_view (stop_audio s) = editor_view s"
  by (simp add: editor_view_def stop_audio_def)

lemma view_closeEvent: "editor_view (closeEvent s) = editor_view s"
  by (simp add: closeEvent_def cleanup_all_temp_files_def Let_def view_fold_cleanup
        view_stop_audio)

lemma view_show_message: "editor_view (show_message a s) = editor_view s"
  by (simp add: editor_view_def show_message_def)

lemma view_write_file: "editor_view (write_file p n s) = editor_view s"
  by (simp add: editor_view_def write_file_def)

lemma view_text_to_speech: "editor_view (snd (text_to_speech env tx c s)) = editor_view s"
proof -
  have tracked: "editor_view (s\<lparr>temp_files := ps\<rparr>) = editor_view s" for s ps
    by (simp add: editor_view_def)
  show ?thesis
    by (simp add: text_to_speech_def Let_def view_cleanup_single_file view_show_message
          view_write_file tracked split: sum.splits)
qed

lemma view_speak_text: "editor_view (speak_text env tx c s) = editor_view s"
proof -
  have cur: "editor_view (s\<lparr>current_playing_file := p\<rparr>) = editor_view s" for s p
    by (simp add: editor_view_def)
  have play: "editor_view (s\<lparr>player_playing := p\<rparr>) = editor_view s" for s p
    by (simp add: editor_view_def)
  have tts: "text_to_speech env tx c (stop_audio s) = (r, s') \<Longrightarrow> editor_view s' = editor_view s"
    for r s'
    using view_text_to_speech [of env "tx" c "stop_audio s"] by (simp add: view_stop_audio)
  show ?thesis
    by (auto simp add: speak_text_def Let_def view_cleanup_single_file view_show_message
          cur play dest: tts split: prod.splits option.splits sum.splits)
qed

lemma view_media_status: "editor_view (handle_media_status_changed st s) = editor_view s"
proof -
  have cur: "editor_view (s\<lparr>current_playing_file := p\<rparr>) = editor_view s" for s p
    by (simp add: editor_view_def)
  have play: "editor_view (s\<lparr>player_playing := p\<rparr>) = editor_view s" for s p
    by (simp add: editor_view_def)
  show ?thesis
    by (simp add: handle_media_status_changed_def Let_def view_cleanup_single_file cur play
          split: option.splits)
qed

lemma editors_ok_init: "editors_ok (init_app keys examples d)"
  by (simp add: editors_ok_def init_app_def update_editor_states_def)

lemma editors_ok_swap: "editors_ok (swap_languages s)"
  by (simp add: editors_ok_def swap_languages_fields)

lemma reachable_editors_ok: "reachable s \<Longrightarrow> editors_ok s"
proof (induction rule: reachable.induct)
  case (start keys examples d)
  show ?case by (rule editors_ok_init)
next
  case (press_swap s)
  show ?case by (simp add: handle_swap_button_def editors_ok_swap)
next
  case (press_translate s env s')
  then show ?case
    using view_translate_text [of env s s']
    by (simp add: editors_ok_view handle_translate_button_def)
next
  case (timeout s env s')
  then show ?case using view_timer_timeout [of env s s'] by (simp add: editors_ok_view)
qed (simp_all add: editors_ok_view view_set_text view_set_left_lang view_set_right_lang
       view_select_translator view_save_api_key view_save_correction view_closeEvent
       view_media_status view_speak_text handle_speak_button_def,
     simp_all add: editor_view_def)

subsection \<open>\<^verbatim>\<open>translate_text\<close> without the signal of the target pane\<close>

lemma dispatch_direction:
  "translate_left_to_right (fst (translate_dispatch env tx a b s)) = translate_left_to_right s"
  by (simp add: translate_dispatch_def log_call_def Let_def)

lemma set_text_target:
  "translate_left_to_right s' = translate_left_to_right s \<Longrightarrow>
   set_text (target_is_left s) t s' = write_pane (target_is_left s) t s'"
  by (simp add: set_text_eq target_is_left_def)

lemma translate_text_eq:
  "translate_text env s =
     (if source_text_of s = [] then Inr (write_pane (target_is_left s) [] s)
      else
        (let d = translate_dispatch env (source_text_of s) (src_lang_name_of s)
                   (dest_lang_name_of s) (s\<lparr>last_source_text := source_text_of s\<rparr>)
         in Inr (write_pane (target_is_left s)
                   (case snd d of Inr translation \<Rightarrow> translation
                                | Inl e \<Rightarrow> error_prefix @ str_exn e)
                   (fst d))))"
proof -
  have "set_text (target_is_left s) t s' = write_pane (target_is_left s) t s'"
    if "translate_dispatch env tx a b (s\<lparr>last_source_text := u\<rparr>) = (s', r)"
    for t s' tx a b u r
  proof -
    from that have "translate_left_to_right s' = translate_left_to_right s"
      using dispatch_direction [of env "tx" a b "s\<lparr>last_source_text := u\<rparr>"] by simp
    then show ?thesis by (rule set_text_target)
  qed
  then show ?thesis
    by (auto simp add: translate_text_def Let_def set_text_target
          split: prod.splits sum.splits)
qed

section \<open>The translation dispatch\<close>



text \<open>
  C3. When the text of the active source pane is empty after trimming, no provider is
  called. The text-changed handler, for either pane, calls no provider and leaves the
  timer as it was; run for the source pane it clears the target pane, run for the target
  pane it does nothing. \<^verbatim>\<open>translate_text\<close>, called directly or by the timer, clears the
  target pane and returns without a provider call.
\<close>

theorem empty_source_never_dispatches:
  assumes "source_text_of s = []"
  shows "provider_calls (handle_text_changed is_left s) = provider_calls s
       \<and> translate_timer (handle_text_changed is_left s) = translate_timer s
       \<and> pane_text (target_is_left s) (handle_text_changed (translate_left_to_right s) s) = []
       \<and> handle_text_changed (target_is_left s) s = s
       \<and> (\<exists>s'. translate_text env s = Inr s' \<and> provider_calls s' = provider_calls s
               \<and> translate_timer s' = translate_timer s
               \<and> pane_text (target_is_left s) s' = [])
       \<and> (\<exists>s'. timer_timeout env s = Inr s' \<and> provider_calls s' = provider_calls s)"
proof -
  have src: "strip (pane_text (translate_left_to_right s) s) = []"
    using assms
    by (cases "translate_left_to_right s") (simp_all add: source_text_of_def pane_text_def)
  have none: "source_text_of (s\<lparr>translate_timer := None\<rparr>) = []"
    using assms by (auto simp add: source_text_of_def split: if_splits)
  have h1: "provider_calls (handle_text_changed is_left s) = provider_calls s"
    by (simp add: handle_text_changed_eq write_pane_def timer_start_def)
  have h2: "translate_timer (handle_text_changed is_left s) = translate_timer s"
    using src by (simp add: handle_text_changed_eq write_pane_def timer_start_def)
  have h3: "pane_text (target_is_left s)
              (handle_text_changed (translate_left_to_right s) s) = []"
    using src by (simp add: handle_text_changed_eq target_is_left_def)
  have h4: "handle_text_changed (target_is_left s) s = s"
    by (simp add: handle_text_changed_eq target_is_left_def)
  have h5: "\<exists>s'. translate_text env s = Inr s' \<and> provider_calls s' = provider_calls s
               \<and> translate_timer s' = translate_timer s
               \<and> pane_text (target_is_left s) s' = []"
    using assms by (simp add: translate_text_eq write_pane_def pane_text_def)
  have h6: "\<exists>s'. timer_timeout env s = Inr s' \<and> provider_calls s' = provider_calls s"
    using none
    by (simp add: timer_timeout_def translate_text_eq write_pane_def split: option.splits)
  from h1 h2 h3 h4 h5 h6 show ?thesis by blast
qed

theorem empty_source_never_dispatches_witness:
  "source_text_of fresh_app = []
   \<and> (\<exists>s'. translate_text offline_providers fresh_app = Inr s' \<and> provider_calls s' = [])
   \<and> translate_timer (handle_text_changed True fresh_app) = None"
proof -
  have e: "source_text_of fresh_app = []"
    by (simp add: fresh_eval strip_eval source_text_of_def)
  have f: "provider_calls fresh_app = []" "translate_timer fresh_app = None"
    by (simp_all add: fresh_eval)
  show ?thesis
    using empty_source_never_dispatches [OF e, of True offline_providers] e f by auto
qed

section \<open>Swapping the direction\<close>

text \<open>
  C5. In every state the window can reach, two swaps in a row restore the direction, the
  contents of both panes, both language selections and both read-only flags.
\<close>

theorem swap_twice_restores:
  assumes "reachable s"
  shows "translate_left_to_right (swap_languages (swap_languages s)) = translate_left_to_right s
   \<and> left_text (swap_languages (swap_languages s)) = left_text s
   \<and> right_text (swap_languages (swap_languages s)) = right_text s
   \<and> left_lang_combo (swap_languages (swap_languages s)) = left_lang_combo s
   \<and> right_lang_combo (swap_languages (swap_languages s)) = right_lang_combo s
   \<and> left_read_only (swap_languages (swap_languages s)) = left_read_only s
   \<and> right_read_only (swap_languages (swap_languages s)) = right_read_only s"
  using reachable_editors_ok [OF assms] by (simp add: swap_languages_fields editors_ok_def)

theorem swap_twice_restores_witness:
  "reachable hello_typed
   \<and> translate_left_to_right (swap_languages (swap_languages hello_typed))
   \<and> left_text (swap_languages (swap_languages hello_typed)) = [0x48, 0x65, 0x6C, 0x6C, 0x6F]
   \<and> left_lang_combo (swap_languages (swap_languages hello_typed)) = Chinese
   \<and> \<not> left_read_only (swap_languages (swap_languages hello_typed))
   \<and> right_read_only (swap_languages (swap_languages hello_typed))"
proof -
  have "reachable fresh_app"
    unfolding fresh_app_def by (rule reachable.start)
  moreover have "\<not> pane_read_only True fresh_app"
    by (simp add: pane_read_only_def fresh_eval)
  ultimately have r: "reachable hello_typed"
    unfolding hello_typed_def by (rule reachable.edit)
  have f: "translate_left_to_right hello_typed"
    "left_text hello_typed = [0x48, 0x65, 0x6C, 0x6C, 0x6F]"
    "left_lang_combo hello_typed = Chinese"
    "\<not> left_read_only hello_typed" "right_read_only hello_typed"
    by (simp_all add: hello_typed_eq fresh_eval)
  show ?thesis
    using swap_twice_restores [OF r] r f by simp
qed

text \<open>
  C6, as the code has it. A swap calls no provider and runs no text-changed handler: the
  texts are exchanged as they are and the last source text stays. It leaves the timer
  alone only when both combos show the same language; when they differ, setting the
  combos starts the 50 ms timer, so a translation is scheduled.
\<close>

theorem swap_languages_schedule:
  "provider_calls (swap_languages s) = provider_calls s
   \<and> last_source_text (swap_languages s) = last_source_text s
   \<and> left_text (swap_languages s) = right_text s
   \<and> right_text (swap_languages s) = left_text s
   \<and> (left_lang_combo s = right_lang_combo s
        \<longrightarrow> translate_timer (swap_languages s) = translate_timer s)
   \<and> (left_lang_combo s \<noteq> right_lang_combo s
        \<longrightarrow> translate_timer (swap_languages s) = Some 50)"
  by (simp add: swap_languages_fields)

theorem swap_languages_schedule_witness:
  "left_lang_combo fresh_app \<noteq> right_lang_combo fresh_app
   \<and> translate_timer (swap_languages fresh_app) = Some 50
   \<and> provider_calls (swap_languages fresh_app) = []
   \<and> translate_timer (swap_languages (fresh_app\<lparr>right_lang_combo := Chinese\<rparr>)) = None"
  using swap_languages_schedule [of fresh_app]
    swap_languages_schedule [of "fresh_app\<lparr>right_lang_combo := Chinese\<rparr>"]
  by (simp add: fresh_eval)

text \<open>
  On a freshly started window no translation is pending; after one swap the timer is
  running. After a finished translation of \<^verbatim>\<open>Hello\<close>, one swap starts the timer, and
  when it fires the provider is called a second time.
\<close>

theorem swap_schedules_counterexample:
  "translate_timer fresh_app = None
   \<and> translate_timer (swap_languages fresh_app) = Some 50
   \<and> translate_timer hello_translated = None
   \<and> provider_calls hello_translated = [GoogleFree]
   \<and> translate_timer (swap_languages hello_translated) = Some 50
   \<and> map_sum id provider_calls (timer_timeout offline_providers (swap_languages hello_translated))
       = Inr [GoogleFree, GoogleFree]"
proof -
  have f: "translate_timer (swap_languages s) = Some 50
           \<and> right_text (swap_languages s) = [0x48, 0x65, 0x6C, 0x6C, 0x6F]
           \<and> \<not> translate_left_to_right (swap_languages s)
           \<and> provider_calls (swap_languages s) = [GoogleFree]"
    if "s = hello_translated" for s
    using that by (simp add: swap_languages_fields hello_translated_def fresh_eval)
  have tc: "translator_combo (swap_languages s) = translator_combo s" for s
    by (simp add: swap_languages_def Let_def set_text_eq text_connected_def write_pane_def
          timer_start_def trigger_translation_def set_left_lang_def set_right_lang_def
          update_editor_states_def stop_audio_def)
  have g: "translator_combo (swap_languages hello_translated) = GoogleFree"
    by (simp add: tc hello_translated_def fresh_eval)
  have src: "source_text_of (swap_languages hello_translated\<lparr>translate_timer := None\<rparr>)
               = [0x48, 0x65, 0x6C, 0x6C, 0x6F]"
    using f [OF refl] by (simp add: source_text_of_def strip_eval)
  have "map_sum id provider_calls
          (timer_timeout offline_providers (swap_languages hello_translated))
        = Inr [GoogleFree, GoogleFree]"
    using f [OF refl] g src
    by (simp add: timer_timeout_def translate_text_eq translate_dispatch_def log_call_def
          write_pane_def Let_def)
  then show ?thesis
    using f [OF refl] by (simp add: swap_languages_fields fresh_eval hello_translated_def)
qed

section \<open>The store of learned examples\<close>

text \<open>
  C2. The settings store holds at most ten examples: the learning operation is its only
  writer and the store starts empty. For every such store and every pair that is not empty
  on either side after trimming: when an identical pair is already stored, the stored list
  is unchanged; otherwise the pair is appended and the ten newest examples are kept, the
  oldest going first; so the stored list has at most ten examples afterwards. Both
  versions store the same list.
\<close>

theorem save_correction_store:
  assumes "strip (last_source_text s) \<noteq> []" and "strip (correction_input s) \<noteq> []"
    and "length (translation_examples s) \<le> 10"
  shows "(let xs = translation_examples s;
              e = \<lparr>ex_source = strip (last_source_text s),
                   ex_translation = strip (correction_input s)\<rparr>;
              ys = translation_examples (save_correction s)
          in (e \<in> set xs \<longrightarrow> ys = xs)
           \<and> (e \<notin> set xs \<longrightarrow> ys = drop (length xs - 9) xs @ [e])
           \<and> length ys \<le> 10
           \<and> translation_examples (save_correction_v10 s) = ys)"
  using assms
  by (auto simp add: save_correction_def save_correction_v10_def Let_def show_message_def
        last_n_def)

text \<open>
  The pair that is already stored leaves the store as it is; a new pair is appended to an
  empty store; a new pair added to a full store pushes the oldest example out.
\<close>

theorem save_correction_store_witness:
  "translation_examples (save_correction taught_once) = [letter_example 0x61]
   \<and> translation_examples (save_correction teach_new)
       = [\<lparr>ex_source = [0x61], ex_translation = [0x62]\<rparr>]
   \<and> length (translation_examples full_store) = 10
   \<and> translation_examples (save_correction full_store)
       = map letter_example [0x62, 0x63, 0x64, 0x65, 0x66, 0x67, 0x68, 0x69, 0x6A, 0x6B]"
  using save_correction_store [of taught_once] save_correction_store [of teach_new]
    save_correction_store [of full_store]
  by (simp add: taught_once_def teach_new_def full_store_def fresh_eval strip_eval
        letter_example_def Let_def)

text \<open>
  C9. When the last source text or the correction is empty after trimming, the learning
  operation only shows the warning: the stored examples and the correction field are as
  before, and so is every other part of the state.
\<close>

theorem save_correction_rejects_empty:
  assumes "strip (last_source_text s) = [] \<or> strip (correction_input s) = []"
  shows "save_correction s
           = s\<lparr>messages := messages s @ [Warning msg_error_title msg_need_both]\<rparr>
       \<and> translation_examples (save_correction s) = translation_examples s
       \<and> correction_input (save_correction s) = correction_input s"
  using assms by (auto simp add: save_correction_def Let_def show_message_def)

theorem save_correction_rejects_empty_witness:
  "strip (correction_input hi_without_correction) = []
   \<and> strip (last_source_text hi_without_correction) \<noteq> []
   \<and> translation_examples (save_correction hi_without_correction) = []
   \<and> correction_input (save_correction hi_without_correction) = []"
  using save_correction_rejects_empty [of hi_without_correction]
  by (simp add: hi_without_correction_def fresh_eval strip_eval)

text \<open>
  C10. From the same state the two versions of the learning operation store the same
  list of examples, whatever the list was before: the slice of v1.1 changes nothing on a
  list of at most ten examples, which v1.0 does not slice.
\<close>

theorem save_correction_versions_agree:
  "translation_examples (save_correction_v10 s) = translation_examples (save_correction s)"
  by (simp add: save_correction_def save_correction_v10_def Let_def show_message_def
        last_n_def)

section \<open>Script conversion of the translation\<close>

text \<open>
  C4, as the code has it. When the target language is Chinese and the source text is not
  empty after trimming, the output of Groq Llama3 (trimmed, quotes removed) and the output
  of the Translators aggregator go through the OpenCC conversion before they are written
  to the target pane; the output of Gemini Pro is written as it was returned.
\<close>

theorem converted_before_written:
  assumes "source_text_of s \<noteq> []" and "dest_lang_name_of s = lang_name Chinese"
  shows "(translator_combo s = GroqLlama3 \<and> \<not> no_key (api_keys s GroqLlama3)
          \<and> groq_chat env (key_of (api_keys s GroqLlama3))
               (refinement_prompt env (translation_examples s) (src_lang_name_of s)
                  (dest_lang_name_of s) (source_text_of s)) = Inr content
          \<longrightarrow> (\<exists>s'. translate_text env s = Inr s'
                 \<and> pane_text (target_is_left s) s'
                     = opencc_convert env (strip_quotes (strip content))))
       \<and> (translator_combo s = TranslatorsAggregate
          \<and> ts_translate env (source_text_of s)
               (ts_lang_map (src_lang_name_of s) [0x61, 0x75, 0x74, 0x6F])
               (ts_lang_map (dest_lang_name_of s) [0x65, 0x6E]) = Inr out
          \<longrightarrow> (\<exists>s'. translate_text env s = Inr s'
                 \<and> pane_text (target_is_left s) s' = opencc_convert env out))
       \<and> (translator_combo s = GeminiPro \<and> \<not> no_key (api_keys s GeminiPro)
          \<and> gemini_generate env (key_of (api_keys s GeminiPro))
               (gemini_prompt (src_lang_name_of s) (dest_lang_name_of s) (source_text_of s))
               = Inr out
          \<longrightarrow> (\<exists>s'. translate_text env s = Inr s'
                 \<and> pane_text (target_is_left s) s' = out))"
  using assms
  by (simp add: translate_text_eq translate_dispatch_def Let_def ts_lang_map_def)

theorem converted_before_written_witness:
  "source_text_of to_chinese \<noteq> []
   \<and> dest_lang_name_of to_chinese = lang_name Chinese
   \<and> (\<exists>s'. translate_text simplified_providers to_chinese = Inr s'
          \<and> right_text s' = [0x8B6F])
   \<and> (\<exists>s'. translate_text simplified_providers
               (to_chinese\<lparr>translator_combo := TranslatorsAggregate\<rparr>) = Inr s'
          \<and> right_text s' = [0x8B6F])
   \<and> (\<exists>s'. translate_text simplified_providers
               (to_chinese\<lparr>translator_combo := GeminiPro\<rparr>) = Inr s'
          \<and> right_text s' = [0x8BD1])"
proof -
  let ?t = "to_chinese\<lparr>translator_combo := TranslatorsAggregate\<rparr>"
  let ?g = "to_chinese\<lparr>translator_combo := GeminiPro\<rparr>"
  have ne: "source_text_of to_chinese \<noteq> []" "source_text_of ?t \<noteq> []"
    "source_text_of ?g \<noteq> []"
    by (simp_all add: to_chinese_def fresh_eval strip_eval source_text_of_def)
  have dst: "dest_lang_name_of to_chinese = lang_name Chinese"
    "dest_lang_name_of ?t = lang_name Chinese" "dest_lang_name_of ?g = lang_name Chinese"
    by (simp_all add: to_chinese_def fresh_eval dest_lang_name_of_def)
  have sel: "translator_combo to_chinese = GroqLlama3"
    "\<not> no_key (api_keys to_chinese GroqLlama3)" "\<not> no_key (api_keys to_chinese GeminiPro)"
    "target_is_left to_chinese = False" "target_is_left ?t = False" "target_is_left ?g = False"
    by (simp_all add: to_chinese_def fresh_eval no_key_def target_is_left_def)
  have env: "groq_chat simplified_providers k p = Inr [0x22, 0x8BD1, 0x22]"
    "ts_translate simplified_providers tx a b = Inr [0x8BD1]"
    "gemini_generate simplified_providers k p = Inr [0x8BD1]"
    "opencc_convert simplified_providers (strip_quotes (strip [0x22, 0x8BD1, 0x22])) = [0x8B6F]"
    "opencc_convert simplified_providers [0x8BD1] = [0x8B6F]" for k p tx a b
    by (simp_all add: simplified_providers_def s2twp_sample_def strip_quotes_def strip_eval)
  show ?thesis
    using converted_before_written [OF ne(1) dst(1), of simplified_providers "[0x22, 0x8BD1, 0x22]"]
      converted_before_written [OF ne(2) dst(2), of simplified_providers _ "[0x8BD1]"]
      converted_before_written [OF ne(3) dst(3), of simplified_providers _ "[0x8BD1]"]
    by (simp add: ne dst sel env pane_text_def)
qed

text \<open>
  Gemini Pro answers with a simplified character: the pane shows it unchanged, while the
  conversion would have given the traditional one.
\<close>

theorem gemini_not_converted_counterexample:
  "dest_lang_name_of (to_chinese\<lparr>translator_combo := GeminiPro\<rparr>) = lang_name Chinese
   \<and> translate_text simplified_providers (to_chinese\<lparr>translator_combo := GeminiPro\<rparr>)
       = Inr (to_chinese\<lparr>translator_combo := GeminiPro, last_source_text := [0x74],
                provider_calls := [GeminiPro], right_text := [0x8BD1]\<rparr>)
   \<and> opencc_convert simplified_providers [0x8BD1] = [0x8B6F]"
  by (simp add: translate_text_eq to_chinese_def fresh_eval strip_eval source_text_of_def
        src_lang_name_of_def dest_lang_name_of_def target_is_left_def translate_dispatch_def
        no_key_def key_of_def simplified_providers_def s2twp_sample_def log_call_def
        write_pane_def Let_def)

section \<open>Temporary audio files at shutdown and on failure\<close>

subsection \<open>What the cleanup loops compute\<close>

lemma deletable_None [simp]: "\<not> deletable None"
  by (simp add: deletable_def)

lemma os_unlink_eq:
  "os_unlink p d = (if deletable (d p) then Inr (d(p := None))
                    else Inl (if d p = None then FileNotFoundError p else PermissionError p))"
  by (simp add: os_unlink_def deletable_def split: option.splits)

lemma cleanup_single_file_eq:
  "cleanup_single_file p s =
     (if p \<in> set (temp_files s) \<and> deletable (disk s p)
      then s\<lparr>disk := (disk s)(p := None), temp_files := remove1 p (temp_files s)\<rparr>
      else s)"
  by (simp add: cleanup_single_file_def os_unlink_eq)

lemma unlink_if_exists_eq:
  "unlink_if_exists p s =
     (if deletable (disk s p) then s\<lparr>disk := (disk s)(p := None)\<rparr> else s)"
  by (auto simp add: unlink_if_exists_def os_unlink_eq)

lemma fold_cleanup:
  assumes "distinct ps" and "distinct (temp_files s)" and "set ps \<subseteq> set (temp_files s)"
  shows "temp_files (fold cleanup_single_file ps s)
           = filter (\<lambda>p. \<not> (p \<in> set ps \<and> deletable (disk s p))) (temp_files s)
       \<and> disk (fold cleanup_single_file ps s)
           = (\<lambda>q. if q \<in> set ps \<and> deletable (disk s q) then None else disk s q)"
  using assms
proof (induction ps arbitrary: s)
  case Nil
  show ?case by simp
next
  case (Cons p ps)
  from Cons.prems have p: "p \<notin> set ps" "distinct ps" "p \<in> set (temp_files s)"
    "set ps \<subseteq> set (temp_files s)" by auto
  show ?case
  proof (cases "deletable (disk s p)")
    case False
    then have "cleanup_single_file p s = s" by (simp add: cleanup_single_file_eq)
    with Cons.IH [of s] p Cons.prems False show ?thesis
      by (auto intro!: filter_cong ext)
  next
    case True
    let ?s1 = "s\<lparr>disk := (disk s)(p := None), temp_files := remove1 p (temp_files s)\<rparr>"
    have s1: "cleanup_single_file p s = ?s1" using True p by (simp add: cleanup_single_file_eq)
    have d1: "distinct (temp_files ?s1)" using Cons.prems by simp
    have sub: "set ps \<subseteq> set (temp_files ?s1)" using p Cons.prems by auto
    have del: "deletable (disk ?s1 q) = deletable (disk s q)" if "q \<in> set ps" for q
    proof -
      from that p have "q \<noteq> p" by auto
      then show ?thesis by simp
    qed
    have rm: "remove1 p (temp_files s) = filter (\<lambda>q. q \<noteq> p) (temp_files s)"
      using Cons.prems
      by (auto simp add: distinct_remove1_removeAll removeAll_filter_not_eq intro!: filter_cong)
    from Cons.IH [OF p(2) d1 sub]
    have ih: "temp_files (fold cleanup_single_file ps ?s1)
           = filter (\<lambda>q. \<not> (q \<in> set ps \<and> deletable (disk ?s1 q))) (temp_files ?s1)"
      "disk (fold cleanup_single_file ps ?s1)
           = (\<lambda>q. if q \<in> set ps \<and> deletable (disk ?s1 q) then None else disk ?s1 q)"
      by blast+
    have "temp_files (fold cleanup_single_file (p # ps) s)
           = filter (\<lambda>q. \<not> (q \<in> set ps \<and> deletable (disk ?s1 q))) (temp_files ?s1)"
      by (simp only: fold_simps s1 ih(1))
    also have "\<dots> = filter (\<lambda>q. \<not> (q \<in> set (p # ps) \<and> deletable (disk s q))) (temp_files s)"
      using True by (auto simp add: rm intro!: filter_cong)
    finally have t: "temp_files (fold cleanup_single_file (p # ps) s)
           = filter (\<lambda>q. \<not> (q \<in> set (p # ps) \<and> deletable (disk s q))) (temp_files s)" .
    have "disk (fold cleanup_single_file (p # ps) s)
           = (\<lambda>q. if q \<in> set ps \<and> deletable (disk ?s1 q) then None else disk ?s1 q)"
      by (simp only: fold_simps s1 ih(2))
    also have "\<dots> = (\<lambda>q. if q \<in> set (p # ps) \<and> deletable (disk s q) then None else disk s q)"
      using True by (auto simp add: fun_eq_iff)
    finally have d: "disk (fold cleanup_single_file (p # ps) s)
           = (\<lambda>q. if q \<in> set (p # ps) \<and> deletable (disk s q) then None else disk s q)" .
    from t d show ?thesis by simp
  qed
qed

lemma fold_unlink:
  "temp_files (fold unlink_if_exists ps s) = temp_files s
   \<and> disk (fold unlink_if_exists ps s) q
       = (if q \<in> set ps \<and> deletable (disk s q) then None else disk s q)"
proof (induction ps arbitrary: s)
  case Nil
  show ?case by simp
next
  case (Cons p ps)
  show ?case
  proof (cases "deletable (disk s p)")
    case False
    then have "unlink_if_exists p s = s" by (simp add: unlink_if_exists_eq)
    then show ?thesis using Cons.IH [of s] False by auto
  next
    case True
    let ?s1 = "s\<lparr>disk := (disk s)(p := None)\<rparr>"
    have s1: "unlink_if_exists p s = ?s1" using True by (simp add: unlink_if_exists_eq)
    have del: "deletable (disk ?s1 q) = (q \<noteq> p \<and> deletable (disk s q))"
      by simp
    have dq: "disk ?s1 q = (if q = p then None else disk s q)" by simp
    have tf: "temp_files ?s1 = temp_files s" by simp
    from Cons.IH [of ?s1] have
      "temp_files (fold unlink_if_exists (p # ps) s) = temp_files ?s1"
      "disk (fold unlink_if_exists (p # ps) s) q
         = (if q \<in> set ps \<and> deletable (disk ?s1 q) then None else disk ?s1 q)"
      by (simp_all add: s1)
    then show ?thesis unfolding del dq tf using True by auto
  qed
qed

lemma stop_audio_files [simp]:
  "temp_files (stop_audio s) = temp_files s" "disk (stop_audio s) = disk s"
  by (simp_all add: stop_audio_def)

lemma stop_audio_v10_files [simp]:
  "temp_files (stop_audio_v10 s) = temp_files s" "disk (stop_audio_v10 s) = disk s"
  by (simp_all add: stop_audio_v10_def Let_def)

lemma cleanup_all_eq:
  assumes "distinct (temp_files s)"
  shows "temp_files (cleanup_all_temp_files s)
           = filter (\<lambda>p. \<not> deletable (disk s p)) (temp_files s)"
    and "disk (cleanup_all_temp_files s)
           = (\<lambda>q. if q \<in> set (temp_files s) \<and> deletable (disk s q) then None else disk s q)"
  using fold_cleanup [of "temp_files s" "stop_audio s"] assms
  by (auto simp add: cleanup_all_temp_files_def Let_def intro!: filter_cong)

lemma cleanup_all_v10_eq:
  "temp_files (cleanup_all_temp_files_v10 s) = temp_files s"
  "disk (cleanup_all_temp_files_v10 s)
           = (\<lambda>q. if q \<in> set (temp_files s) \<and> deletable (disk s q) then None else disk s q)"
  using fold_unlink [of "temp_files s" "stop_audio_v10 s"]
  by (simp_all add: cleanup_all_temp_files_v10_def Let_def fun_eq_iff)

text \<open>
  C7, as the code has it. When no path is tracked twice and every tracked file exists and
  is not held open, the shutdown cleanup of v1.1 leaves the tracked list empty and none of
  the tracked paths on disk, and the cleanup of v1.0 leaves none of them on disk either.
  A tracked file that is still held open is not deleted: after the cleanup of v1.1 it is
  on disk as before and still in the tracked list.
\<close>

theorem cleanup_all_temp_files_deletable:
  assumes "distinct (temp_files s)"
  shows "((\<forall>p \<in> set (temp_files s). deletable (disk s p)) \<longrightarrow>
            temp_files (cleanup_all_temp_files s) = []
            \<and> (\<forall>p \<in> set (temp_files s). disk (cleanup_all_temp_files s) p = None)
            \<and> (\<forall>p \<in> set (temp_files s). disk (cleanup_all_temp_files_v10 s) p = None))
       \<and> (\<forall>p \<in> set (temp_files s). \<forall>f. disk s p = Some f \<and> file_locked f \<longrightarrow>
            p \<in> set (temp_files (cleanup_all_temp_files s))
            \<and> disk (cleanup_all_temp_files s) p = Some f)"
  by (auto simp add: cleanup_all_eq [OF assms] cleanup_all_v10_eq deletable_def filter_empty_conv)

theorem cleanup_all_temp_files_deletable_witness:
  "distinct (temp_files two_files_tracked)
   \<and> temp_files (cleanup_all_temp_files two_files_tracked) = []
   \<and> disk (cleanup_all_temp_files two_files_tracked) audio_a = None
   \<and> disk (cleanup_all_temp_files_v10 two_files_tracked) audio_b = None
   \<and> audio_a \<in> set (temp_files (cleanup_all_temp_files locked_file_tracked))"
proof -
  have t: "temp_files two_files_tracked = [audio_a, audio_b]"
    "temp_files locked_file_tracked = [audio_a]"
    by (simp_all add: two_files_tracked_def locked_file_tracked_def fresh_eval)
  have ne: "audio_a \<noteq> audio_b" by (simp add: audio_a_def audio_b_def)
  have d: "disk two_files_tracked audio_a = Some \<lparr>file_size = 1, file_locked = False\<rparr>"
    "disk two_files_tracked audio_b = Some \<lparr>file_size = 1, file_locked = False\<rparr>"
    "disk locked_file_tracked audio_a = Some \<lparr>file_size = 1, file_locked = True\<rparr>"
    using ne by (simp_all add: two_files_tracked_def locked_file_tracked_def fresh_eval)
  have d2: "distinct (temp_files two_files_tracked)" "distinct (temp_files locked_file_tracked)"
    using ne by (simp_all add: t)
  show ?thesis
    using cleanup_all_temp_files_deletable [OF d2(1)] cleanup_all_temp_files_deletable [OF d2(2)]
    by (simp add: t d ne deletable_def)
qed

text \<open>
  The player has not released the file yet: the unlink is refused, the exception is printed
  and dropped, and the file stays on disk and in the list.
\<close>

theorem cleanup_locked_counterexample:
  "temp_files (cleanup_all_temp_files locked_file_tracked) = [audio_a]
   \<and> disk (cleanup_all_temp_files locked_file_tracked) audio_a
        = Some \<lparr>file_size = 1, file_locked = True\<rparr>"
  by (simp add: locked_file_tracked_def fresh_eval cleanup_all_temp_files_def stop_audio_def
        cleanup_single_file_def os_unlink_def Let_def)

text \<open>
  C8 does not hold of v1.1. \<^verbatim>\<open>text_to_speech\<close> hands the new file to
  \<^verbatim>\<open>cleanup_single_file\<close>, which acts on tracked paths only, and the file is tracked
  only after a successful synthesis. With Google TTS selected and the text \<^verbatim>\<open>hi\<close>: when
  the backend writes nothing, the empty file stays on disk and no message is shown, from
  \<^verbatim>\<open>text_to_speech\<close> and from \<^verbatim>\<open>speak_text\<close> alike; when the backend raises, the error
  is shown and the file stays on disk.
\<close>

theorem text_to_speech_leaves_file:
  "fst (text_to_speech silent_tts [0x68, 0x69] (get_lang_code (lang_name English)) google_voice)
     = None
   \<and> disk (snd (text_to_speech silent_tts [0x68, 0x69] (get_lang_code (lang_name English))
                  google_voice)) audio_a
       = Some \<lparr>file_size = 0, file_locked = False\<rparr>
   \<and> messages (snd (text_to_speech silent_tts [0x68, 0x69] (get_lang_code (lang_name English))
                      google_voice)) = []
   \<and> disk (speak_text silent_tts [0x68, 0x69] (get_lang_code (lang_name English)) google_voice)
        audio_a = Some \<lparr>file_size = 0, file_locked = False\<rparr>
   \<and> messages (speak_text silent_tts [0x68, 0x69] (get_lang_code (lang_name English))
                  google_voice) = []
   \<and> disk (snd (text_to_speech failing_tts [0x68, 0x69] (get_lang_code (lang_name English))
                  google_voice)) audio_a
       = Some \<lparr>file_size = 0, file_locked = False\<rparr>
   \<and> messages (snd (text_to_speech failing_tts [0x68, 0x69] (get_lang_code (lang_name English))
                      google_voice))
       = [Critical msg_tts_error_title (msg_tts_error @ [0x6F, 0x66, 0x66])]"
  by (simp add: text_to_speech_def speak_text_def silent_tts_def failing_tts_def google_voice_def
        fresh_eval write_file_def cleanup_single_file_def show_message_def stop_audio_def Let_def)

end
